theory Spec2Isabelle
  imports Complex_Main
begin

section \<open>Python values\<close>

text \<open>
  A Python float is one of the finite values, the two infinities, or NaN. A finite float
  is embedded as the real number it denotes, so comparisons are exact; arithmetic is the
  exact arithmetic of the reals (rounding and overflow to an infinity are not modelled,
  and the two zeros are one value).
\<close>

datatype pyfloat = Fin real | PInf | NInf | NaN

text \<open>\<open>a < b\<close> on floats: every comparison with NaN is false.\<close>

fun flt :: "pyfloat \<Rightarrow> pyfloat \<Rightarrow> bool" where
  "flt (Fin a) (Fin b) = (a < b)"
| "flt (Fin a) PInf = True"
| "flt NInf (Fin b) = True"
| "flt NInf PInf = True"
| "flt _ _ = False"

text \<open>\<open>a > b\<close> is \<open>b < a\<close>.\<close>

definition fgt :: "pyfloat \<Rightarrow> pyfloat \<Rightarrow> bool" where
  "fgt a b = flt b a"

text \<open>\<open>a \<le> b\<close> on floats, used to state ranges: false as soon as one side is NaN.\<close>

fun fle :: "pyfloat \<Rightarrow> pyfloat \<Rightarrow> bool" where
  "fle (Fin a) (Fin b) = (a \<le> b)"
| "fle (Fin a) PInf = True"
| "fle NInf (Fin b) = True"
| "fle NInf PInf = True"
| "fle NInf NInf = True"
| "fle PInf PInf = True"
| "fle _ _ = False"

text \<open>The exceptions that the program can meet, each with the text of its message.\<close>

datatype exn =
    KeyError string
  | ValueError string
  | TypeError string
  | AttributeError string
  | StatisticsError string
  | OSError string

text \<open>\<open>str(e)\<close>: a KeyError prints the repr of the key, the others their message.\<close>

fun str_exn :: "exn \<Rightarrow> string" where
  "str_exn (KeyError k) = [CHR 0x27] @ k @ [CHR 0x27]"
| "str_exn (ValueError m) = m"
| "str_exn (TypeError m) = m"
| "str_exn (AttributeError m) = m"
| "str_exn (StatisticsError m) = m"
| "str_exn (OSError m) = m"

text \<open>Sequencing of computations that may raise: the first exception wins.\<close>

definition ebind :: "exn + 'a \<Rightarrow> ('a \<Rightarrow> exn + 'b) \<Rightarrow> exn + 'b" where
  "ebind m f = (case m of Inl e \<Rightarrow> Inl e | Inr x \<Rightarrow> f x)"

text \<open>
  The values a row of the CSV reader holds: text as read (\<open>VStr\<close>), \<open>None\<close> for a
  column the line did not fill, and a float once \<open>process_sensor_data\<close> has stored the
  converted number back into the row.
\<close>

datatype pyval = VStr string | VFloat pyfloat | VNone

type_synonym row = "string \<rightharpoonup> pyval"

text \<open>\<open>record[key]\<close>: KeyError on a missing key.\<close>

definition getitem :: "row \<Rightarrow> string \<Rightarrow> exn + pyval" where
  "getitem record k = (case record k of None \<Rightarrow> Inl (KeyError k) | Some v \<Rightarrow> Inr v)"

text \<open>
  A \<open>datetime\<close> object: the civil fields, and the offset from UTC in microseconds for an
  aware value (\<open>None\<close> for a naive one).
\<close>

record datetime =
  dt_year :: nat
  dt_month :: nat
  dt_day :: nat
  dt_hour :: nat
  dt_minute :: nat
  dt_second :: nat
  dt_microsecond :: nat
  dt_utcoffset :: "int option"

text \<open>The documents the program builds: nested dictionaries with ordered keys.\<close>

datatype jval =
    JNull
  | JInt int
  | JNum pyfloat
  | JStr string
  | JObj "(string \<times> jval) list"

text \<open>What one effect on the file system asks for.\<close>

datatype effect =
    Mkdir string
  | WriteJson string string jval

text \<open>
  The environment a run sees. The library functions whose results are fixed by the Python
  runtime and not by this repository are taken as they are: \<open>float\<close> on text,
  \<open>datetime.fromisoformat\<close>, \<open>datetime.isoformat\<close>, the path functions, and
  \<open>statistics.stdev\<close> on a list that holds an infinity or NaN (its result there depends
  on the version of the library). The rest is the state of the world: the clock, the
  files that exist, what reading the input yields (an exception on opening, or the rows
  of the reader followed by an optional exception raised in the middle of the read),
  and whether creating the directory and writing the document raise.
\<close>

record env =
  float_of_str :: "string \<Rightarrow> exn + pyfloat"
  fromisoformat :: "string \<Rightarrow> exn + datetime"
  isoformat :: "datetime \<Rightarrow> string"
  stdev_nonfinite :: "pyfloat list \<Rightarrow> exn + pyfloat"
  path_name :: "string \<Rightarrow> string"
  path_stem :: "string \<Rightarrow> string"
  now_isoformat :: string
  path_exists :: "string \<Rightarrow> bool"
  read_csv :: "string \<Rightarrow> exn + (row list \<times> exn option)"
  mkdir :: "string \<Rightarrow> exn option"
  write_json :: "string \<Rightarrow> string \<Rightarrow> jval \<Rightarrow> exn option"

text \<open>\<open>float(x)\<close>: a float is returned as it is, text is parsed, \<open>None\<close> is a TypeError.\<close>

definition py_float :: "env \<Rightarrow> pyval \<Rightarrow> exn + pyfloat" where
  "py_float E v =
     (case v of
        VFloat x \<Rightarrow> Inr x
      | VStr s \<Rightarrow> float_of_str E s
      | VNone \<Rightarrow> Inl (TypeError ''float() argument must be a string or a real number''))"

section \<open>The validator\<close>

text \<open>The body of the \<open>try\<close> block of \<open>validate_data\<close>, in the order of the source.\<close>

definition validate_body :: "env \<Rightarrow> row \<Rightarrow> exn + bool" where
  "validate_body E record =
     ebind (getitem record ''voltage'') (\<lambda>v0. ebind (py_float E v0) (\<lambda>voltage.
       if flt voltage (Fin 18) \<or> fgt voltage (Fin 32) then Inr False
       else
     ebind (getitem record ''current'') (\<lambda>c0. ebind (py_float E c0) (\<lambda>current.
       if flt current (Fin 0) \<or> fgt current (Fin 12) then Inr False
       else
     ebind (getitem record ''temperature'') (\<lambda>t0. ebind (py_float E t0) (\<lambda>temperature.
       if flt temperature (Fin (- 10)) \<or> fgt temperature (Fin 80) then Inr False
       else
     ebind (getitem record ''power'') (\<lambda>p0. ebind (py_float E p0) (\<lambda>power.
       if flt power (Fin 0) then Inr False
       else Inr True))))))))"

text \<open>The bare \<open>except\<close> turns every exception of the body into the verdict False.\<close>

definition validate_data :: "env \<Rightarrow> row \<Rightarrow> bool" where
  "validate_data E record =
     (case validate_body E record of Inl e \<Rightarrow> False | Inr verdict \<Rightarrow> verdict)"

text \<open>The value \<open>float(record[key])\<close> evaluates to, or the exception it raises.\<close>

definition field_float :: "env \<Rightarrow> row \<Rightarrow> string \<Rightarrow> exn + pyfloat" where
  "field_float E record k = ebind (getitem record k) (py_float E)"

section \<open>Float arithmetic and the library functions\<close>

fun fadd :: "pyfloat \<Rightarrow> pyfloat \<Rightarrow> pyfloat" where
  "fadd (Fin a) (Fin b) = Fin (a + b)"
| "fadd NaN _ = NaN"
| "fadd _ NaN = NaN"
| "fadd PInf NInf = NaN"
| "fadd NInf PInf = NaN"
| "fadd PInf _ = PInf"
| "fadd _ PInf = PInf"
| "fadd NInf _ = NInf"
| "fadd _ NInf = NInf"

fun fmul :: "pyfloat \<Rightarrow> pyfloat \<Rightarrow> pyfloat" where
  "fmul (Fin a) (Fin b) = Fin (a * b)"
| "fmul NaN _ = NaN"
| "fmul _ NaN = NaN"
| "fmul PInf (Fin b) = (if 0 < b then PInf else if b < 0 then NInf else NaN)"
| "fmul NInf (Fin b) = (if 0 < b then NInf else if b < 0 then PInf else NaN)"
| "fmul (Fin a) PInf = (if 0 < a then PInf else if a < 0 then NInf else NaN)"
| "fmul (Fin a) NInf = (if 0 < a then NInf else if a < 0 then PInf else NaN)"
| "fmul PInf PInf = PInf"
| "fmul NInf NInf = PInf"
| "fmul PInf NInf = NInf"
| "fmul NInf PInf = NInf"

text \<open>
  Division of a float by a finite number that is not zero: the program divides by the
  literal 1000, and the library by the length of a list that is not empty.
\<close>

fun fdiv :: "pyfloat \<Rightarrow> real \<Rightarrow> pyfloat" where
  "fdiv (Fin a) d = Fin (a / d)"
| "fdiv PInf d = (if 0 < d then PInf else NInf)"
| "fdiv NInf d = (if 0 < d then NInf else PInf)"
| "fdiv NaN d = NaN"

fun is_finite :: "pyfloat \<Rightarrow> bool" where
  "is_finite (Fin a) = True"
| "is_finite _ = False"

fun fin_val :: "pyfloat \<Rightarrow> real" where
  "fin_val (Fin a) = a"
| "fin_val _ = 0"

text \<open>
  The numeric lists handed to the library hold the values of the rows. A value that is
  not a number makes the first use of its list raise TypeError (\<open>statistics.mean\<close>, and
  \<open>p * interval_hours\<close> for the powers).
\<close>

fun floats_of :: "pyval list \<Rightarrow> exn + pyfloat list" where
  "floats_of [] = Inr []"
| "floats_of (VFloat x # vs) = ebind (floats_of vs) (\<lambda>xs. Inr (x # xs))"
| "floats_of (v # vs) = Inl (TypeError ''unsupported operand type'')"

text \<open>
  \<open>statistics.mean\<close>: the exact sum of the data divided by their number. When the data
  hold an infinity or NaN the library adds up those values alone, as floats and from the
  left, and divides that sum.
\<close>

definition mean_value :: "pyfloat list \<Rightarrow> pyfloat" where
  "mean_value xs =
     (if list_all is_finite xs then Fin (sum_list (map fin_val xs) / real (length xs))
      else fdiv (foldl fadd (Fin 0) (filter (\<lambda>x. \<not> is_finite x) xs)) (real (length xs)))"

definition mean :: "pyfloat list \<Rightarrow> exn + pyfloat" where
  "mean xs =
     (if xs = [] then Inl (StatisticsError ''mean requires at least one data point'')
      else Inr (mean_value xs))"

text \<open>
  \<open>statistics.stdev\<close>: the library computes the sum of squared deviations as
  \<open>(n * sxx - sx * sx) / n\<close> from the exact sums \<open>sx\<close> of the data and \<open>sxx\<close> of their
  squares, divides by \<open>n - 1\<close> and takes the square root.
\<close>

definition stdev :: "env \<Rightarrow> pyfloat list \<Rightarrow> exn + pyfloat" where
  "stdev E xs =
     (if length xs < 2 then Inl (StatisticsError ''stdev requires at least two data points'')
      else if list_all is_finite xs then
        (let n = real (length xs);
             sx = sum_list (map fin_val xs);
             sxx = sum_list (map (\<lambda>x. fin_val x * fin_val x) xs);
             ssd = (n * sxx - sx * sx) / n;
             mss = ssd / (n - 1)
         in Inr (Fin (sqrt mss)))
      else stdev_nonfinite E xs)"

text \<open>The builtins \<open>min\<close> and \<open>max\<close>: the first item stays until a later one beats it.\<close>

definition py_min :: "pyfloat list \<Rightarrow> exn + pyfloat" where
  "py_min xs =
     (case xs of
        [] \<Rightarrow> Inl (ValueError ''min() arg is an empty sequence'')
      | x # rest \<Rightarrow> Inr (foldl (\<lambda>cur item. if flt item cur then item else cur) x rest))"

definition py_max :: "pyfloat list \<Rightarrow> exn + pyfloat" where
  "py_max xs =
     (case xs of
        [] \<Rightarrow> Inl (ValueError ''max() arg is an empty sequence'')
      | x # rest \<Rightarrow> Inr (foldl (\<lambda>cur item. if fgt item cur then item else cur) x rest))"

subsection \<open>Datetimes as dictionary keys\<close>

text \<open>\<open>ts.replace(minute=0, second=0, microsecond=0)\<close>\<close>

definition replace_hms :: "datetime \<Rightarrow> datetime" where
  "replace_hms ts = ts\<lparr>dt_minute := 0, dt_second := 0, dt_microsecond := 0\<rparr>"

definition is_leap :: "nat \<Rightarrow> bool" where
  "is_leap y = (y mod 4 = 0 \<and> (y mod 100 \<noteq> 0 \<or> y mod 400 = 0))"

definition days_before_year :: "nat \<Rightarrow> int" where
  "days_before_year y =
     (let p = int y - 1 in p * 365 + p div 4 - p div 100 + p div 400)"

definition days_in_month :: "nat \<Rightarrow> nat \<Rightarrow> int" where
  "days_in_month y m =
     (if m = 2 then (if is_leap y then 29 else 28)
      else if m = 4 \<or> m = 6 \<or> m = 9 \<or> m = 11 then 30 else 31)"

definition days_before_month :: "nat \<Rightarrow> nat \<Rightarrow> int" where
  "days_before_month y m = sum_list (map (days_in_month y) [1 ..< m])"

text \<open>The instant of an aware datetime, in microseconds, as the library's subtraction sees it.\<close>

definition utc_micros :: "datetime \<Rightarrow> int \<Rightarrow> int" where
  "utc_micros d off =
     ((((days_before_year (dt_year d) + days_before_month (dt_year d) (dt_month d) + int (dt_day d)) * 24
         + int (dt_hour d)) * 60 + int (dt_minute d)) * 60 + int (dt_second d)) * 1000000
       + int (dt_microsecond d) - off"

definition civil :: "datetime \<Rightarrow> nat \<times> nat \<times> nat \<times> nat \<times> nat \<times> nat \<times> nat" where
  "civil d = (dt_year d, dt_month d, dt_day d, dt_hour d, dt_minute d, dt_second d, dt_microsecond d)"

text \<open>
  \<open>a == b\<close> on datetimes, which decides whether two keys of a dictionary are the same:
  two naive values, or two aware values of one offset, are compared field by field; two
  aware values of different offsets are equal when they are the same instant; a naive
  and an aware value are never equal.
\<close>

definition dt_eq :: "datetime \<Rightarrow> datetime \<Rightarrow> bool" where
  "dt_eq a b =
     (case (dt_utcoffset a, dt_utcoffset b) of
        (None, None) \<Rightarrow> civil a = civil b
      | (Some x, Some y) \<Rightarrow>
          (if x = y then civil a = civil b else utc_micros a x = utc_micros b y)
      | _ \<Rightarrow> False)"

text \<open>
  The dictionary \<open>hourly_power\<close>: its items in insertion order, which is the order in
  which Python iterates over them.
\<close>

type_synonym buckets = "(datetime \<times> pyval list) list"

definition dict_contains :: "buckets \<Rightarrow> datetime \<Rightarrow> bool" where
  "dict_contains d k = list_ex (\<lambda>item. dt_eq (fst item) k) d"

text \<open>\<open>d[k].append(v)\<close>, for a key that the dictionary holds.\<close>

fun dict_append :: "buckets \<Rightarrow> datetime \<Rightarrow> pyval \<Rightarrow> buckets" where
  "dict_append [] k v = []"
| "dict_append ((k', vs) # d) k v =
     (if dt_eq k' k then (k', vs @ [v]) # d else (k', vs) # dict_append d k v)"

definition py_fromisoformat :: "env \<Rightarrow> pyval \<Rightarrow> exn + datetime" where
  "py_fromisoformat E v =
     (case v of
        VStr s \<Rightarrow> fromisoformat E s
      | _ \<Rightarrow> Inl (TypeError ''fromisoformat: argument must be str''))"

section \<open>The aggregator\<close>

text \<open>The first loop of \<open>calculate_metrics\<close>: the four lists of values.\<close>

fun collect :: "row list \<Rightarrow> exn + (pyval list \<times> pyval list \<times> pyval list \<times> pyval list)" where
  "collect [] = Inr ([], [], [], [])"
| "collect (record # rest) =
     ebind (getitem record ''voltage'') (\<lambda>v.
     ebind (getitem record ''current'') (\<lambda>c.
     ebind (getitem record ''temperature'') (\<lambda>t.
     ebind (getitem record ''power'') (\<lambda>p.
     ebind (collect rest) (\<lambda>(voltages, currents, temperatures, powers).
       Inr (v # voltages, c # currents, t # temperatures, p # powers))))))"

definition interval_hours :: pyfloat where
  "interval_hours = Fin (5 / 60)"

text \<open>The energy loop: \<open>total_energy_kwh += (p * interval_hours) / 1000\<close>.\<close>

fun energy_loop :: "pyfloat list \<Rightarrow> pyfloat \<Rightarrow> pyfloat" where
  "energy_loop [] total_energy_kwh = total_energy_kwh"
| "energy_loop (p # powers) total_energy_kwh =
     energy_loop powers (fadd total_energy_kwh (fdiv (fmul p interval_hours) 1000))"

text \<open>The loop that fills \<open>hourly_power\<close>.\<close>

fun bucket_loop :: "env \<Rightarrow> row list \<Rightarrow> buckets \<Rightarrow> exn + buckets" where
  "bucket_loop E [] hourly_power = Inr hourly_power"
| "bucket_loop E (record # rest) hourly_power =
     ebind (getitem record ''timestamp'') (\<lambda>t.
     ebind (py_fromisoformat E t) (\<lambda>ts.
       let hour = replace_hms ts;
           hourly_power1 =
             (if \<not> dict_contains hourly_power hour then hourly_power @ [(hour, [])]
              else hourly_power)
       in ebind (getitem record ''power'') (\<lambda>p.
            bucket_loop E rest (dict_append hourly_power1 hour p))))"

text \<open>The search for the hour of highest average power, over the items in order.\<close>

fun peak_loop :: "buckets \<Rightarrow> datetime option \<times> pyfloat \<Rightarrow> exn + (datetime option \<times> pyfloat)" where
  "peak_loop [] best = Inr best"
| "peak_loop ((hour, values) # rest) (peak_hour, highest_avg) =
     ebind (ebind (floats_of values) mean) (\<lambda>avg_power.
       if fgt avg_power highest_avg then peak_loop rest (Some hour, avg_power)
       else peak_loop rest (peak_hour, highest_avg))"

definition calculate_metrics :: "env \<Rightarrow> row list \<Rightarrow> exn + jval" where
  "calculate_metrics E data =
     ebind (collect data) (\<lambda>(voltages, currents, temperatures, powers).
     ebind (floats_of voltages) (\<lambda>vs.
     ebind (mean vs) (\<lambda>voltage_avg.
     ebind (py_min vs) (\<lambda>voltage_min.
     ebind (py_max vs) (\<lambda>voltage_max.
     ebind (if 1 < length vs then ebind (stdev E vs) (\<lambda>s. Inr (JNum s)) else Inr (JInt 0))
       (\<lambda>voltage_std.
     ebind (floats_of currents) (\<lambda>cs.
     ebind (mean cs) (\<lambda>current_avg.
     ebind (py_min cs) (\<lambda>current_min.
     ebind (py_max cs) (\<lambda>current_max.
     ebind (floats_of temperatures) (\<lambda>ts.
     ebind (mean ts) (\<lambda>temperature_avg.
     ebind (py_min ts) (\<lambda>temperature_min.
     ebind (py_max ts) (\<lambda>temperature_max.
     ebind (floats_of powers) (\<lambda>ps.
       let total_energy_kwh = energy_loop ps (Fin 0) in
     ebind (bucket_loop E data []) (\<lambda>hourly_power.
     ebind (peak_loop hourly_power (None, Fin (- 1))) (\<lambda>(peak_hour, highest_avg).
     ebind (case peak_hour of
              None \<Rightarrow> Inl (AttributeError ''NoneType object has no attribute isoformat'')
            | Some h \<Rightarrow> Inr (isoformat E h)) (\<lambda>peak_power_hour.
       Inr (JObj
         [(''voltage'', JObj
             [(''avg'', JNum voltage_avg), (''min'', JNum voltage_min),
              (''max'', JNum voltage_max), (''std'', voltage_std)]),
          (''current'', JObj
             [(''avg'', JNum current_avg), (''min'', JNum current_min),
              (''max'', JNum current_max)]),
          (''temperature'', JObj
             [(''avg'', JNum temperature_avg), (''min'', JNum temperature_min),
              (''max'', JNum temperature_max)]),
          (''total_energy_kwh'', JNum total_energy_kwh),
          (''peak_power_hour'', JStr peak_power_hour)])))))))))))))))))))"

section \<open>The batch\<close>

text \<open>
  The dictionary \<open>result\<close>. The key \<open>error\<close> is absent until an error is recorded, and
  \<open>output_file\<close> is \<open>None\<close> until the document is written.
\<close>

record batch_result =
  input_file :: string
  output_file :: "string option"
  processed_at :: string
  status :: string
  records_processed :: nat
  records_invalid :: nat
  metrics :: jval
  error :: "string option"

text \<open>The four conversions of a row, each stored back into the row.\<close>

definition coerce_row :: "env \<Rightarrow> row \<Rightarrow> exn + row" where
  "coerce_row E row0 =
     ebind (field_float E row0 ''voltage'') (\<lambda>v. let row1 = row0(''voltage'' \<mapsto> VFloat v) in
     ebind (field_float E row1 ''current'') (\<lambda>c. let row2 = row1(''current'' \<mapsto> VFloat c) in
     ebind (field_float E row2 ''temperature'') (\<lambda>t. let row3 = row2(''temperature'' \<mapsto> VFloat t) in
     ebind (field_float E row3 ''power'') (\<lambda>p. Inr (row3(''power'' \<mapsto> VFloat p))))))"

text \<open>The loop over the rows of the reader.\<close>

fun row_loop :: "env \<Rightarrow> row list \<Rightarrow> row list \<times> nat \<Rightarrow> row list \<times> nat" where
  "row_loop E [] acc = acc"
| "row_loop E (row0 # rest) (valid_records, invalid_count) =
     (case coerce_row E row0 of
        Inl e \<Rightarrow> row_loop E rest (valid_records, invalid_count + 1)
      | Inr row1 \<Rightarrow>
          if validate_data E row1 then row_loop E rest (valid_records @ [row1], invalid_count)
          else row_loop E rest (valid_records, invalid_count + 1))"

definition pending_result :: "env \<Rightarrow> string \<Rightarrow> batch_result" where
  "pending_result E infile =
     \<lparr>input_file = path_name E infile, output_file = None, processed_at = now_isoformat E,
      status = ''pending'', records_processed = 0, records_invalid = 0, metrics = JObj [],
      error = None\<rparr>"

text \<open>
  The body of the \<open>try\<close> block of \<open>process_sensor_data\<close>: what it returns or the exception
  it raises, with the operations it has asked of the file system up to that point.
\<close>

definition batch_body ::
  "env \<Rightarrow> string \<Rightarrow> string \<Rightarrow> batch_result \<Rightarrow> (exn + batch_result) \<times> effect list" where
  "batch_body E infile output_dir result =
     (if \<not> path_exists E infile then
        (Inr (result\<lparr>status := ''error'', error := Some ''Input file does not exist''\<rparr>), [])
      else
        case read_csv E infile of
          Inl e \<Rightarrow> (Inl e, [])
        | Inr (rows, fault) \<Rightarrow>
            let (valid_records, invalid_count) = row_loop E rows ([], 0) in
            case fault of
              Some e \<Rightarrow> (Inl e, [])
            | None \<Rightarrow>
                if length valid_records = 0 then
                  (Inr (result\<lparr>status := ''error'', records_invalid := invalid_count,
                          error := Some ''All records invalid''\<rparr>), [])
                else
                  case calculate_metrics E valid_records of
                    Inl e \<Rightarrow> (Inl e, [])
                  | Inr m \<Rightarrow>
                      (case mkdir E output_dir of
                         Some e \<Rightarrow> (Inl e, [Mkdir output_dir])
                       | None \<Rightarrow>
                           let output_filename = path_stem E infile @ ''_processed.json'';
                               document = JObj
                                 [(''input_file'', JStr (input_file result)),
                                  (''output_file'', JStr output_filename),
                                  (''processed_at'', JStr (processed_at result)),
                                  (''status'', JStr ''success''),
                                  (''records_processed'', JInt (int (length valid_records))),
                                  (''records_invalid'', JInt (int invalid_count)),
                                  (''metrics'', m)];
                               effects = [Mkdir output_dir,
                                          WriteJson output_dir output_filename document]
                           in case write_json E output_dir output_filename document of
                                Some e \<Rightarrow> (Inl e, effects)
                              | None \<Rightarrow>
                                  (Inr (result\<lparr>status := ''success'',
                                          output_file := Some output_filename,
                                          records_processed := length valid_records,
                                          records_invalid := invalid_count,
                                          metrics := m\<rparr>), effects)))"

text \<open>
  \<open>process_sensor_data\<close>: the handler \<open>except Exception as e\<close> turns an exception of the
  body into an error result that carries \<open>str(e)\<close>.
\<close>

definition process_sensor_data :: "env \<Rightarrow> string \<Rightarrow> string \<Rightarrow> batch_result \<times> effect list" where
  "process_sensor_data E infile output_dir =
     (let result = pending_result E infile in
      case batch_body E infile output_dir result of
        (Inr r, effects) \<Rightarrow> (r, effects)
      | (Inl e, effects) \<Rightarrow> (result\<lparr>status := ''error'', error := Some (str_exn e)\<rparr>, effects))"

section \<open>Notions of the specification\<close>

text \<open>Reading a key of a document, and the keys it has.\<close>

definition jget :: "string \<Rightarrow> jval \<Rightarrow> jval option" where
  "jget k j = (case j of JObj kvs \<Rightarrow> map_of kvs k | _ \<Rightarrow> None)"

definition jkeys :: "jval \<Rightarrow> string list" where
  "jkeys j = (case j of JObj kvs \<Rightarrow> map fst kvs | _ \<Rightarrow> [])"

text \<open>
  A Sensor Reading of the specification: four floats and a parsed timestamp. A row stands
  for a reading when its four numeric fields hold floats and its timestamp is text that
  the library parses.
\<close>

record reading =
  rd_voltage :: pyfloat
  rd_current :: pyfloat
  rd_temperature :: pyfloat
  rd_power :: pyfloat
  rd_timestamp :: datetime

definition float_of_val :: "pyval option \<Rightarrow> pyfloat option" where
  "float_of_val v = (case v of Some (VFloat x) \<Rightarrow> Some x | _ \<Rightarrow> None)"

definition datetime_of_val :: "env \<Rightarrow> pyval option \<Rightarrow> datetime option" where
  "datetime_of_val E v =
     (case v of
        Some (VStr s) \<Rightarrow> (case fromisoformat E s of Inr ts \<Rightarrow> Some ts | Inl e \<Rightarrow> None)
      | _ \<Rightarrow> None)"

definition as_reading :: "env \<Rightarrow> row \<Rightarrow> reading option" where
  "as_reading E r =
     (case float_of_val (r ''voltage'') of None \<Rightarrow> None | Some v \<Rightarrow>
      case float_of_val (r ''current'') of None \<Rightarrow> None | Some c \<Rightarrow>
      case float_of_val (r ''temperature'') of None \<Rightarrow> None | Some t \<Rightarrow>
      case float_of_val (r ''power'') of None \<Rightarrow> None | Some p \<Rightarrow>
      case datetime_of_val E (r ''timestamp'') of None \<Rightarrow> None | Some ts \<Rightarrow>
        Some \<lparr>rd_voltage = v, rd_current = c, rd_temperature = t, rd_power = p,
              rd_timestamp = ts\<rparr>)"

text \<open>The invariant of a Sensor Reading.\<close>

definition reading_inv :: "reading \<Rightarrow> bool" where
  "reading_inv x =
     (fle (Fin 18) (rd_voltage x) \<and> fle (rd_voltage x) (Fin 32) \<and>
      fle (Fin 0) (rd_current x) \<and> fle (rd_current x) (Fin 12) \<and>
      fle (Fin (- 10)) (rd_temperature x) \<and> fle (rd_temperature x) (Fin 80) \<and>
      fle (Fin 0) (rd_power x))"

text \<open>The rows of \<open>data\<close> stand for the Sensor Readings \<open>rs\<close>, one for one.\<close>

definition sensor_readings :: "env \<Rightarrow> row list \<Rightarrow> reading list \<Rightarrow> bool" where
  "sensor_readings E data rs =
     (map (as_reading E) data = map Some rs \<and> list_all reading_inv rs)"

text \<open>The hour bucket of a reading: its timestamp with minutes, seconds, microseconds zeroed.\<close>

definition rd_hour :: "reading \<Rightarrow> datetime" where
  "rd_hour x = replace_hms (rd_timestamp x)"

text \<open>The timestamps share one offset from UTC, or are all naive.\<close>

definition same_offset :: "reading list \<Rightarrow> bool" where
  "same_offset rs =
     list_all (\<lambda>x. dt_utcoffset (rd_timestamp x) = dt_utcoffset (rd_timestamp (hd rs))) rs"

text \<open>The distinct elements of a list, in the order in which each first appears.\<close>

fun first_seen :: "'a list \<Rightarrow> 'a list" where
  "first_seen [] = []"
| "first_seen (x # xs) = x # filter (\<lambda>y. y \<noteq> x) (first_seen xs)"

text \<open>The powers of the readings of one hour, in the order of the input.\<close>

definition bucket_powers :: "reading list \<Rightarrow> datetime \<Rightarrow> pyfloat list" where
  "bucket_powers rs k = map rd_power (filter (\<lambda>x. rd_hour x = k) rs)"

text \<open>The energy of the specification: the sum over the readings of \<open>power * (5/60) / 1000\<close>.\<close>

fun energy_sum :: "pyfloat list \<Rightarrow> pyfloat" where
  "energy_sum [] = Fin 0"
| "energy_sum (p # ps) = fadd (fdiv (fmul p (Fin (5 / 60))) 1000) (energy_sum ps)"

text \<open>The sample standard deviation with Bessel's correction: the divisor is \<open>n - 1\<close>.\<close>

definition sample_std :: "real list \<Rightarrow> real" where
  "sample_std xs =
     (let n = real (length xs); mu = sum_list xs / n
      in sqrt (sum_list (map (\<lambda>x. (x - mu) * (x - mu)) xs) / (n - 1)))"

text \<open>
  A row passes both the numeric coercion and the validation; the rows of a batch that do,
  as the batch keeps them (with their numbers converted).
\<close>

definition row_valid :: "env \<Rightarrow> row \<Rightarrow> bool" where
  "row_valid E r = (case coerce_row E r of Inl e \<Rightarrow> False | Inr r1 \<Rightarrow> validate_data E r1)"

fun valid_rows :: "env \<Rightarrow> row list \<Rightarrow> row list" where
  "valid_rows E [] = []"
| "valid_rows E (r # rs) =
     (case coerce_row E r of
        Inl e \<Rightarrow> valid_rows E rs
      | Inr r1 \<Rightarrow> if validate_data E r1 then r1 # valid_rows E rs else valid_rows E rs)"

section \<open>A sample environment\<close>

text \<open>
  An environment to run the program in: the library functions on the texts the examples
  use, a file system where the input exists and every operation succeeds, and a reader
  that yields the given rows.
\<close>

definition sample_float :: "string \<Rightarrow> exn + pyfloat" where
  "sample_float s =
     (case map_of
        [(''24.0'', Fin 24), (''26.0'', Fin 26), (''28.0'', Fin 28), (''40.0'', Fin 40),
         (''5.0'', Fin 5), (''25.0'', Fin 25), (''10.0'', Fin 10), (''15.0'', Fin 15),
         (''20.0'', Fin 20), (''100.0'', Fin 100), (''nan'', NaN), (''inf'', PInf)] s of
        Some x \<Rightarrow> Inr x
      | None \<Rightarrow> Inl (ValueError (''could not convert string to float: '' @ s)))"

definition jan1 :: "nat \<Rightarrow> nat \<Rightarrow> datetime" where
  "jan1 h m =
     \<lparr>dt_year = 2024, dt_month = 1, dt_day = 1, dt_hour = h, dt_minute = m, dt_second = 0,
      dt_microsecond = 0, dt_utcoffset = None\<rparr>"

definition sample_fromisoformat :: "string \<Rightarrow> exn + datetime" where
  "sample_fromisoformat s =
     (case map_of
        [(''2024-01-01T10:00:00'', jan1 10 0), (''2024-01-01T10:05:00'', jan1 10 5),
         (''2024-01-01T10:10:00'', jan1 10 10), (''2024-01-01T11:00:00'', jan1 11 0),
         (''2024-01-01T11:05:00'', jan1 11 5)] s of
        Some d \<Rightarrow> Inr d
      | None \<Rightarrow> Inl (ValueError (''Invalid isoformat string: '' @ s)))"

definition sample_isoformat :: "datetime \<Rightarrow> string" where
  "sample_isoformat d =
     (if d = jan1 10 0 then ''2024-01-01T10:00:00''
      else if d = jan1 11 0 then ''2024-01-01T11:00:00''
      else ''2024-01-01T00:00:00'')"

definition sample_env :: "row list \<Rightarrow> env" where
  "sample_env rows =
     \<lparr>float_of_str = sample_float,
      fromisoformat = sample_fromisoformat,
      isoformat = sample_isoformat,
      stdev_nonfinite = (\<lambda>xs. Inr NaN),
      path_name = (\<lambda>p. p),
      path_stem = takeWhile (\<lambda>c. c \<noteq> CHR ''.''),
      now_isoformat = ''2024-01-02T08:00:00'',
      path_exists = (\<lambda>p. True),
      read_csv = (\<lambda>p. Inr (rows, None)),
      mkdir = (\<lambda>d. None),
      write_json = (\<lambda>d f j. None)\<rparr>"

text \<open>A row as the reader yields it, and the row once its numbers are converted.\<close>

definition text_row :: "string \<Rightarrow> string \<Rightarrow> string \<Rightarrow> string \<Rightarrow> string \<Rightarrow> row" where
  "text_row v c t p ts =
     [''timestamp'' \<mapsto> VStr ts, ''voltage'' \<mapsto> VStr v, ''current'' \<mapsto> VStr c,
      ''temperature'' \<mapsto> VStr t, ''power'' \<mapsto> VStr p]"

definition float_row :: "pyfloat \<Rightarrow> pyfloat \<Rightarrow> pyfloat \<Rightarrow> pyfloat \<Rightarrow> string \<Rightarrow> row" where
  "float_row v c t p ts =
     [''timestamp'' \<mapsto> VStr ts, ''voltage'' \<mapsto> VFloat v, ''current'' \<mapsto> VFloat c,
      ''temperature'' \<mapsto> VFloat t, ''power'' \<mapsto> VFloat p]"

text \<open>
  Three batches: one whose two rows are both invalid (a voltage out of range, a current
  that is not a number); one of three valid and two invalid rows; one whose only row has
  valid numbers and a timestamp that is not ISO text.
\<close>

definition invalid_batch :: "row list" where
  "invalid_batch =
     [text_row ''40.0'' ''5.0'' ''25.0'' ''100.0'' ''2024-01-01T10:00:00'',
      text_row ''24.0'' ''abc'' ''25.0'' ''100.0'' ''2024-01-01T10:05:00'']"

definition mixed_batch :: "row list" where
  "mixed_batch =
     [text_row ''24.0'' ''5.0'' ''25.0'' ''10.0'' ''2024-01-01T10:00:00'',
      text_row ''40.0'' ''5.0'' ''25.0'' ''100.0'' ''2024-01-01T10:05:00'',
      text_row ''26.0'' ''5.0'' ''25.0'' ''20.0'' ''2024-01-01T11:00:00'',
      text_row ''24.0'' ''abc'' ''25.0'' ''100.0'' ''2024-01-01T10:10:00'',
      text_row ''28.0'' ''5.0'' ''25.0'' ''20.0'' ''2024-01-01T11:05:00'']"

definition undated_batch :: "row list" where
  "undated_batch = [text_row ''24.0'' ''5.0'' ''25.0'' ''100.0'' ''yesterday'']"

text \<open>The rows of \<open>mixed_batch\<close> that are valid, with their numbers converted.\<close>

definition mixed_valid :: "row list" where
  "mixed_valid =
     [float_row (Fin 24) (Fin 5) (Fin 25) (Fin 10) ''2024-01-01T10:00:00'',
      float_row (Fin 26) (Fin 5) (Fin 25) (Fin 20) ''2024-01-01T11:00:00'',
      float_row (Fin 28) (Fin 5) (Fin 25) (Fin 20) ''2024-01-01T11:05:00'']"

section \<open>Properties of the validator\<close>

lemmas row_simps = float_row_def text_row_def getitem_def py_float_def field_float_def ebind_def
  sample_env_def sample_float_def fgt_def

lemma validate_data_iff:
  "validate_data E record \<longleftrightarrow>
     (\<exists>v c t p. field_float E record ''voltage'' = Inr v \<and> \<not> flt v (Fin 18) \<and> \<not> fgt v (Fin 32)
        \<and> field_float E record ''current'' = Inr c \<and> \<not> flt c (Fin 0) \<and> \<not> fgt c (Fin 12)
        \<and> field_float E record ''temperature'' = Inr t \<and> \<not> flt t (Fin (- 10)) \<and> \<not> fgt t (Fin 80)
        \<and> field_float E record ''power'' = Inr p \<and> \<not> flt p (Fin 0))"
  unfolding validate_data_def validate_body_def field_float_def ebind_def
  by (auto split: sum.splits)

lemma not_flt_iff: "x \<noteq> NaN \<Longrightarrow> \<not> flt x (Fin a) \<longleftrightarrow> fle (Fin a) x"
  by (cases x) auto

lemma not_fgt_iff: "x \<noteq> NaN \<Longrightarrow> \<not> fgt x (Fin a) \<longleftrightarrow> fle x (Fin a)"
  by (cases x) (auto simp: fgt_def)

text \<open>
  On a record whose four fields convert to floats other than NaN, the validator accepts
  exactly when the four ranges hold.
\<close>

lemma validate_data_ranges:
  assumes "field_float E record ''voltage'' = Inr v" and "field_float E record ''current'' = Inr c"
    and "field_float E record ''temperature'' = Inr t" and "field_float E record ''power'' = Inr p"
    and "v \<noteq> NaN" and "c \<noteq> NaN" and "t \<noteq> NaN" and "p \<noteq> NaN"
  shows "validate_data E record \<longleftrightarrow>
     fle (Fin 18) v \<and> fle v (Fin 32) \<and> fle (Fin 0) c \<and> fle c (Fin 12) \<and>
     fle (Fin (- 10)) t \<and> fle t (Fin 80) \<and> fle (Fin 0) p"
  using assms by (simp add: validate_data_iff not_flt_iff not_fgt_iff)

text \<open>
  C1. The claim: when the four numeric fields parse as floats, \<open>validate_data\<close> accepts if
  and only if 18 \<le> voltage \<le> 32, 0 \<le> current \<le> 12, -10 \<le> temperature \<le> 80 and
  power \<ge> 0. The code tests \<open>voltage < 18 or voltage > 32\<close>, which is false for NaN: a
  record whose voltage is NaN, as a float or as the text \<open>nan\<close>, is accepted although
  18 \<le> NaN \<le> 32 does not hold.
\<close>

theorem validate_data_accepts_nan:
  "validate_data E (float_row NaN (Fin 5) (Fin 25) (Fin 100) ''2024-01-01T10:00:00'') \<and>
   validate_data (sample_env [])
     (text_row ''nan'' ''5.0'' ''25.0'' ''100.0'' ''2024-01-01T10:00:00'') \<and>
   \<not> (fle (Fin 18) NaN \<and> fle NaN (Fin 32))"
  by (simp add: validate_data_def validate_body_def row_simps)

text \<open>
  C2. \<open>validate_data\<close> returns a verdict on every record and lets no exception escape:
  an exception raised in its body becomes the verdict False, and a record with a missing
  field or a field that does not convert to a float is rejected.
\<close>

theorem validate_data_never_faults:
  "(validate_body E record = Inl e \<longrightarrow> validate_data E record = False) \<and>
   (k \<in> {''voltage'', ''current'', ''temperature'', ''power''} \<and> field_float E record k = Inl e'
      \<longrightarrow> validate_data E record = False)"
proof (intro conjI impI)
  assume "validate_body E record = Inl e"
  then show "validate_data E record = False" by (simp add: validate_data_def)
next
  assume "k \<in> {''voltage'', ''current'', ''temperature'', ''power''} \<and> field_float E record k = Inl e'"
  then show "validate_data E record = False" by (auto simp: validate_data_iff)
qed

theorem validate_data_never_faults_witness:
  "validate_body (sample_env []) [''voltage'' \<mapsto> VStr ''24.0'', ''current'' \<mapsto> VStr ''abc'']
     = Inl (ValueError ''could not convert string to float: abc'') \<and>
   field_float (sample_env []) [''voltage'' \<mapsto> VStr ''24.0'', ''current'' \<mapsto> VStr ''abc''] ''power''
     = Inl (KeyError ''power'') \<and>
   validate_data (sample_env []) [''voltage'' \<mapsto> VStr ''24.0'', ''current'' \<mapsto> VStr ''abc''] = False"
  using validate_data_never_faults [of "sample_env []"
      "[''voltage'' \<mapsto> VStr ''24.0'', ''current'' \<mapsto> VStr ''abc'']"
      "ValueError ''could not convert string to float: abc''" "''power''" "KeyError ''power''"]
  by (simp add: validate_body_def row_simps)

section \<open>Properties of the batch\<close>

lemma row_loop_eq:
  "row_loop E rows (vs, n) =
     (vs @ valid_rows E rows, n + length (filter (\<lambda>r. \<not> row_valid E r) rows))"
  by (induction rows arbitrary: vs n) (auto simp: row_valid_def split: sum.splits)

lemma length_valid_rows: "length (valid_rows E rows) = length (filter (row_valid E) rows)"
  by (induction rows) (auto simp: row_valid_def split: sum.splits)

lemma valid_rows_Nil_iff: "valid_rows E rows = [] \<longleftrightarrow> (\<forall>r\<in>set rows. \<not> row_valid E r)"
  by (induction rows) (auto simp: row_valid_def split: sum.splits)

lemma calculate_metrics_Nil:
  "calculate_metrics E [] = Inl (StatisticsError ''mean requires at least one data point'')"
  by (simp add: calculate_metrics_def ebind_def mean_def)

lemmas valid_simps = row_valid_def coerce_row_def validate_data_def validate_body_def row_simps

text \<open>
  C6. When the batch is read in full and every row fails the coercion or the validation,
  \<open>process_sensor_data\<close> returns an error result with the message "All records invalid",
  \<open>records_invalid\<close> equal to the number of rows, no metrics and no output file, and it
  asks nothing of the file system. The aggregator is not called: on the empty valid set
  it would raise, and the result would carry its message instead.
\<close>

theorem empty_valid_set_is_error:
  assumes "path_exists E infile" and "read_csv E infile = Inr (rows, None)"
    and "\<forall>r\<in>set rows. \<not> row_valid E r"
  shows "status (fst (process_sensor_data E infile output_dir)) = ''error'' \<and>
         error (fst (process_sensor_data E infile output_dir)) = Some ''All records invalid'' \<and>
         records_invalid (fst (process_sensor_data E infile output_dir)) = length rows \<and>
         records_processed (fst (process_sensor_data E infile output_dir)) = 0 \<and>
         metrics (fst (process_sensor_data E infile output_dir)) = JObj [] \<and>
         output_file (fst (process_sensor_data E infile output_dir)) = None \<and>
         snd (process_sensor_data E infile output_dir) = [] \<and>
         calculate_metrics E (valid_rows E rows)
           = Inl (StatisticsError ''mean requires at least one data point'')"
proof -
  have v: "valid_rows E rows = []" using assms(3) by (simp add: valid_rows_Nil_iff)
  have n: "length (filter (\<lambda>r. \<not> row_valid E r) rows) = length rows"
    using assms(3) by simp
  have "process_sensor_data E infile output_dir =
           (pending_result E infile
              \<lparr>status := ''error'', records_invalid := length rows,
               error := Some ''All records invalid''\<rparr>, [])"
    using assms(1,2) v n
    by (simp add: process_sensor_data_def batch_body_def row_loop_eq)
  then show ?thesis by (simp add: pending_result_def v calculate_metrics_Nil)
qed

theorem empty_valid_set_is_error_witness:
  "status (fst (process_sensor_data (sample_env invalid_batch) ''batch.csv'' ''out'')) = ''error'' \<and>
   error (fst (process_sensor_data (sample_env invalid_batch) ''batch.csv'' ''out''))
     = Some ''All records invalid'' \<and>
   records_invalid (fst (process_sensor_data (sample_env invalid_batch) ''batch.csv'' ''out'')) = 2 \<and>
   snd (process_sensor_data (sample_env invalid_batch) ''batch.csv'' ''out'') = []"
  using empty_valid_set_is_error
    [of "sample_env invalid_batch" "''batch.csv''" invalid_batch "''out''"]
  by (simp add: invalid_batch_def valid_simps)

subsection \<open>The sample batches, evaluated\<close>

lemma sample_dates:
  "sample_fromisoformat ''2024-01-01T10:00:00'' = Inr (jan1 10 0)"
  "sample_fromisoformat ''2024-01-01T10:05:00'' = Inr (jan1 10 5)"
  "sample_fromisoformat ''2024-01-01T10:10:00'' = Inr (jan1 10 10)"
  "sample_fromisoformat ''2024-01-01T11:00:00'' = Inr (jan1 11 0)"
  "sample_fromisoformat ''2024-01-01T11:05:00'' = Inr (jan1 11 5)"
  by (simp_all add: sample_fromisoformat_def)

lemma jan1_hour: "replace_hms (jan1 h m) = jan1 h 0"
  by (simp add: replace_hms_def jan1_def)

lemma jan1_eq: "dt_eq (jan1 h m) (jan1 h' m') \<longleftrightarrow> h = h' \<and> m = m'"
  by (auto simp: dt_eq_def jan1_def civil_def)

lemma jan1_inj: "jan1 h m = jan1 h' m' \<longleftrightarrow> h = h' \<and> m = m'"
  by (auto simp: jan1_def)

lemma mixed_valid_rows: "valid_rows (sample_env rows) mixed_batch = mixed_valid"
  by (simp add: mixed_batch_def mixed_valid_def valid_simps)

lemma mixed_buckets:
  "bucket_loop (sample_env rows) mixed_valid [] =
     Inr [(jan1 10 0, [VFloat (Fin 10)]), (jan1 11 0, [VFloat (Fin 20), VFloat (Fin 20)])]"
  by (simp add: mixed_valid_def float_row_def getitem_def ebind_def py_fromisoformat_def
        sample_env_def sample_dates jan1_hour jan1_eq dict_contains_def)

lemma mixed_metrics:
  "calculate_metrics (sample_env rows) mixed_valid =
     Inr (JObj
       [(''voltage'', JObj [(''avg'', JNum (Fin 26)), (''min'', JNum (Fin 24)),
                            (''max'', JNum (Fin 28)), (''std'', JNum (Fin 2))]),
        (''current'', JObj [(''avg'', JNum (Fin 5)), (''min'', JNum (Fin 5)),
                            (''max'', JNum (Fin 5))]),
        (''temperature'', JObj [(''avg'', JNum (Fin 25)), (''min'', JNum (Fin 25)),
                                (''max'', JNum (Fin 25))]),
        (''total_energy_kwh'', JNum (Fin (1 / 240))),
        (''peak_power_hour'', JStr ''2024-01-01T11:00:00'')])"
proof -
  have c: "collect mixed_valid =
      Inr ([VFloat (Fin 24), VFloat (Fin 26), VFloat (Fin 28)],
           [VFloat (Fin 5), VFloat (Fin 5), VFloat (Fin 5)],
           [VFloat (Fin 25), VFloat (Fin 25), VFloat (Fin 25)],
           [VFloat (Fin 10), VFloat (Fin 20), VFloat (Fin 20)])"
    by (simp add: mixed_valid_def float_row_def getitem_def ebind_def)
  have s: "stdev (sample_env rows) [Fin 24, Fin 26, Fin 28] = Inr (Fin 2)"
    by (simp add: stdev_def)
  have i: "isoformat (sample_env rows) (jan1 11 0) = ''2024-01-01T11:00:00''"
    by (simp add: sample_env_def sample_isoformat_def jan1_inj)
  show ?thesis
    by (simp add: calculate_metrics_def c s i mixed_buckets ebind_def mean_def mean_value_def
          py_min_def py_max_def fgt_def interval_hours_def)
qed

lemma mixed_counts:
  "length (filter (row_valid (sample_env rows)) mixed_batch) = 3"
  "length (filter (\<lambda>r. \<not> row_valid (sample_env rows) r) mixed_batch) = 2"
  by (simp_all add: mixed_batch_def valid_simps)

lemma valid_rows_nonempty: "\<exists>r\<in>set rows. row_valid E r \<Longrightarrow> valid_rows E rows \<noteq> []"
  by (simp add: valid_rows_Nil_iff)

text \<open>
  C7. The claim: every batch that holds at least one valid row yields a success result.
  A batch whose only row has valid numbers and a timestamp that is not ISO text is
  a batch with a valid row; the aggregator raises on it, and the result is an error with
  \<open>records_processed\<close> 0.
\<close>

theorem valid_row_without_timestamp_counterexample:
  "row_valid (sample_env undated_batch) (hd undated_batch) \<and>
   status (fst (process_sensor_data (sample_env undated_batch) ''batch.csv'' ''out'')) = ''error'' \<and>
   records_processed (fst (process_sensor_data (sample_env undated_batch) ''batch.csv'' ''out'')) = 0"
  by (simp add: undated_batch_def valid_simps process_sensor_data_def batch_body_def
        pending_result_def calculate_metrics_def mean_def mean_value_def py_min_def py_max_def
        interval_hours_def py_fromisoformat_def sample_fromisoformat_def)

text \<open>
  C7, amended. For every batch read in full that holds at least one valid row, when the
  aggregation of the valid rows and the writing of the document raise no exception,
  \<open>process_sensor_data\<close> returns a success result with \<open>records_processed\<close> the number of
  rows that pass both the coercion and the validation, and \<open>records_invalid\<close> the number
  of rows that fail either.
\<close>

theorem valid_batch_succeeds:
  assumes "path_exists E infile" and "read_csv E infile = Inr (rows, None)"
    and "\<exists>r\<in>set rows. row_valid E r"
    and "calculate_metrics E (valid_rows E rows) = Inr m"
    and "mkdir E output_dir = None"
    and "\<forall>document. write_json E output_dir (path_stem E infile @ ''_processed.json'') document = None"
  shows "status (fst (process_sensor_data E infile output_dir)) = ''success'' \<and>
         records_processed (fst (process_sensor_data E infile output_dir))
           = length (filter (row_valid E) rows) \<and>
         records_invalid (fst (process_sensor_data E infile output_dir))
           = length (filter (\<lambda>r. \<not> row_valid E r) rows) \<and>
         metrics (fst (process_sensor_data E infile output_dir)) = m \<and>
         error (fst (process_sensor_data E infile output_dir)) = None \<and>
         output_file (fst (process_sensor_data E infile output_dir))
           = Some (path_stem E infile @ ''_processed.json'')"
proof -
  have v: "valid_rows E rows \<noteq> []" using assms(3) by (rule valid_rows_nonempty)
  let ?f = "path_stem E infile @ ''_processed.json''"
  have "fst (process_sensor_data E infile output_dir) =
          pending_result E infile
            \<lparr>status := ''success'', output_file := Some ?f,
             records_processed := length (valid_rows E rows),
             records_invalid := length (filter (\<lambda>r. \<not> row_valid E r) rows),
             metrics := m\<rparr>"
    using assms(1,2,4,5,6) v
    by (simp add: process_sensor_data_def batch_body_def row_loop_eq Let_def)
  then show ?thesis by (simp add: pending_result_def length_valid_rows)
qed

theorem valid_batch_succeeds_witness:
  "status (fst (process_sensor_data (sample_env mixed_batch) ''batch.csv'' ''out'')) = ''success'' \<and>
   records_processed (fst (process_sensor_data (sample_env mixed_batch) ''batch.csv'' ''out'')) = 3 \<and>
   records_invalid (fst (process_sensor_data (sample_env mixed_batch) ''batch.csv'' ''out'')) = 2 \<and>
   output_file (fst (process_sensor_data (sample_env mixed_batch) ''batch.csv'' ''out''))
     = Some ''batch_processed.json''"
proof -
  have e: "path_exists (sample_env mixed_batch) ''batch.csv''"
    "read_csv (sample_env mixed_batch) ''batch.csv'' = Inr (mixed_batch, None)"
    "mkdir (sample_env mixed_batch) ''out'' = None"
    "\<forall>document. write_json (sample_env mixed_batch) ''out''
        (path_stem (sample_env mixed_batch) ''batch.csv'' @ ''_processed.json'') document = None"
    "path_stem (sample_env mixed_batch) ''batch.csv'' = ''batch''"
    by (simp_all add: sample_env_def)
  have v: "\<exists>r\<in>set mixed_batch. row_valid (sample_env mixed_batch) r"
    by (simp add: mixed_batch_def valid_simps)
  have m: "calculate_metrics (sample_env mixed_batch)
             (valid_rows (sample_env mixed_batch) mixed_batch)
           = calculate_metrics (sample_env mixed_batch) mixed_valid"
    by (simp add: mixed_valid_rows)
  show ?thesis
    using valid_batch_succeeds [OF e(1) e(2) v m [unfolded mixed_metrics] e(3) e(4)]
    by (simp add: mixed_counts e(5))
qed

end
